theory Spec2Isabelle
  imports Main "HOL-Library.Sublist"
begin

section \<open>Strings and percent-coding\<close>

text \<open>
  A JavaScript string is modelled as a \<^typ>\<open>string\<close>: the list of the bytes of its UTF-8
  encoding. A string whose bytes are not well-formed UTF-8 stands for no JavaScript
  string; \<open>wellFormed\<close> below is the representation invariant. (A JavaScript string with
  a lone surrogate has no UTF-8 encoding and is not represented; the strings the handler
  passes to \<open>encodeURIComponent\<close> are serialised URLs, which never contain one.)
\<close>

datatype error = URIError string | TypeError string | OtherError string

fun message :: "error \<Rightarrow> string" where
  "message (URIError m) = m"
| "message (TypeError m) = m"
| "message (OtherError m) = m"

definition byte :: "char \<Rightarrow> nat" where
  "byte c = of_char c"

text \<open>The characters \<open>encodeURIComponent\<close> leaves alone: letters, digits and \<open>-_.!~*'()\<close>.\<close>

definition uriUnescaped :: "char \<Rightarrow> bool" where
  "uriUnescaped c =
     (let n = byte c in
        (65 \<le> n \<and> n \<le> 90) \<or> (97 \<le> n \<and> n \<le> 122) \<or> (48 \<le> n \<and> n \<le> 57) \<or>
        c \<in> set [CHR ''-'', CHR ''_'', CHR ''.'', CHR ''!'', CHR ''~'', CHR ''*'', CHR 0x27,
                  CHR ''('', CHR '')''])"

definition hexDigit :: "nat \<Rightarrow> char" where
  "hexDigit n = (if n < 10 then char_of (48 + n) else char_of (55 + n))"

definition pctEncode :: "char \<Rightarrow> string" where
  "pctEncode c = [CHR ''%'', hexDigit (byte c div 16), hexDigit (byte c mod 16)]"

text \<open>
  \<open>encodeURIComponent\<close> (ECMA-262, Encode with an empty extra set): an unescaped
  character is copied, every other code point is replaced by the escapes of the bytes of
  its UTF-8 encoding, which on the UTF-8 representation is byte by byte.
\<close>

fun encodeURIComponent :: "string \<Rightarrow> string" where
  "encodeURIComponent [] = []"
| "encodeURIComponent (c # s) =
     (if uriUnescaped c then c # encodeURIComponent s
      else pctEncode c @ encodeURIComponent s)"

definition hexVal :: "char \<Rightarrow> nat option" where
  "hexVal c =
     (let n = byte c in
        if 48 \<le> n \<and> n \<le> 57 then Some (n - 48)
        else if 65 \<le> n \<and> n \<le> 70 then Some (n - 55)
        else if 97 \<le> n \<and> n \<le> 102 then Some (n - 87)
        else None)"

definition ParseHexOctet :: "char \<Rightarrow> char \<Rightarrow> char option" where
  "ParseHexOctet h1 h2 =
     (case hexVal h1 of None \<Rightarrow> None
      | Some a \<Rightarrow> (case hexVal h2 of None \<Rightarrow> None | Some b \<Rightarrow> Some (char_of (16 * a + b))))"

text \<open>The number of leading 1 bits of an octet (5 stands for five or more).\<close>

definition leadingOnes :: "char \<Rightarrow> nat" where
  "leadingOnes c =
     (let n = byte c in
        if n < 128 then 0 else if n < 192 then 1 else if n < 224 then 2
        else if n < 240 then 3 else if n < 248 then 4 else 5)"

definition cont :: "char \<Rightarrow> bool" where
  "cont c = (128 \<le> byte c \<and> byte c \<le> 191)"

text \<open>
  Whether a sequence of two to four octets is the UTF-8 encoding of one Unicode code
  point: no overlong form, no surrogate, nothing above U+10FFFF.
\<close>

fun validUtf8 :: "string \<Rightarrow> bool" where
  "validUtf8 [b0, b1] = (194 \<le> byte b0 \<and> byte b0 \<le> 223 \<and> cont b1)"
| "validUtf8 [b0, b1, b2] =
     (((byte b0 = 224 \<and> 160 \<le> byte b1 \<and> byte b1 \<le> 191) \<or>
       (225 \<le> byte b0 \<and> byte b0 \<le> 236 \<and> cont b1) \<or>
       (byte b0 = 237 \<and> 128 \<le> byte b1 \<and> byte b1 \<le> 159) \<or>
       (238 \<le> byte b0 \<and> byte b0 \<le> 239 \<and> cont b1)) \<and> cont b2)"
| "validUtf8 [b0, b1, b2, b3] =
     (((byte b0 = 240 \<and> 144 \<le> byte b1 \<and> byte b1 \<le> 191) \<or>
       (241 \<le> byte b0 \<and> byte b0 \<le> 243 \<and> cont b1) \<or>
       (byte b0 = 244 \<and> 128 \<le> byte b1 \<and> byte b1 \<le> 143)) \<and> cont b2 \<and> cont b3)"
| "validUtf8 _ = False"

text \<open>
  The continuation escapes of a multi-byte sequence: \<open>j\<close> further groups \<open>%XX\<close>, each
  required to be there (ECMA-262 Decode, the inner loop). \<open>None\<close> is the URIError.
\<close>

fun continuation :: "nat \<Rightarrow> string \<Rightarrow> (string \<times> string) option" where
  "continuation 0 s = Some ([], s)"
| "continuation (Suc j) (p # h1 # h2 # rest) =
     (if p \<noteq> CHR ''%'' then None
      else case ParseHexOctet h1 h2 of
          None \<Rightarrow> None
        | Some b \<Rightarrow> (case continuation j rest of
              None \<Rightarrow> None
            | Some (octets, rest') \<Rightarrow> Some (b # octets, rest')))"
| "continuation (Suc j) _ = None"

lemma continuation_length:
  "continuation j s = Some (octets, rest) \<Longrightarrow> length rest \<le> length s"
proof (induction j s arbitrary: octets rest rule: continuation.induct)
  case (2 j p h1 h2 r)
  then show ?case
    by (auto split: if_splits option.splits prod.splits) fastforce
qed simp_all

definition malformed :: error where
  "malformed = URIError ''URI malformed''"

text \<open>
  \<open>decodeURIComponent\<close> (ECMA-262, Decode with an empty preserved set). Every way the
  algorithm throws is the value \<open>Inl malformed\<close>.
\<close>

function decodeURIComponent :: "string \<Rightarrow> error + string" where
  "decodeURIComponent [] = Inr []"
| "decodeURIComponent (c # s) =
     (if c \<noteq> CHR ''%'' then
        (case decodeURIComponent s of Inl e \<Rightarrow> Inl e | Inr r \<Rightarrow> Inr (c # r))
      else case s of
          h1 # h2 # rest \<Rightarrow>
            (case ParseHexOctet h1 h2 of
                None \<Rightarrow> Inl malformed
              | Some b \<Rightarrow>
                  if leadingOnes b = 0 then
                    (case decodeURIComponent rest of Inl e \<Rightarrow> Inl e | Inr r \<Rightarrow> Inr (b # r))
                  else if leadingOnes b = 1 \<or> leadingOnes b > 4 then Inl malformed
                  else (case continuation (leadingOnes b - 1) rest of
                        None \<Rightarrow> Inl malformed
                      | Some (octets, rest') \<Rightarrow>
                          if validUtf8 (b # octets) then
                            (case decodeURIComponent rest' of
                                Inl e \<Rightarrow> Inl e
                              | Inr r \<Rightarrow> Inr (b # octets @ r))
                          else Inl malformed))
        | _ \<Rightarrow> Inl malformed)"
  by pat_completeness auto
termination
proof (relation "measure length")
  show "wf (measure length)" by simp
qed (auto dest: continuation_length)


text \<open>The representation invariant: the bytes are well-formed UTF-8.\<close>

fun wellFormed :: "string \<Rightarrow> bool" where
  "wellFormed [] = True"
| "wellFormed (c # s) =
     (if leadingOnes c = 0 then wellFormed s
      else leadingOnes c - 1 \<le> length s \<and> validUtf8 (c # take (leadingOnes c - 1) s) \<and>
           wellFormed (drop (leadingOnes c - 1) s))"

text \<open>
  \<open>String.prototype.toLowerCase\<close>, on the ASCII letters. The handler lower-cases header
  names (ASCII tokens) and a Content-Type value that it then compares with the ASCII
  words \<open>text/html\<close> and \<open>xml\<close>; no non-ASCII character lower-cases to a letter of
  these words, so the bytes of other characters are left as they are.
\<close>

definition toLowerCase :: "string \<Rightarrow> string" where
  "toLowerCase s = map (\<lambda>c. if 65 \<le> byte c \<and> byte c \<le> 90 then char_of (byte c + 32) else c) s"

text \<open>\<open>s.includes(sub)\<close>; \<open>s.startsWith(p)\<close> is \<^term>\<open>prefix p s\<close>.\<close>

fun str_includes :: "string \<Rightarrow> string \<Rightarrow> bool" where
  "str_includes [] sub = (sub = [])"
| "str_includes (c # s) sub = (prefix sub (c # s) \<or> str_includes s sub)"

text \<open>
  \<open>String.prototype.trim\<close>: the white space and line terminator code points of
  ECMA-262, each as its UTF-8 bytes.
\<close>

definition whiteSpace :: "string list" where
  "whiteSpace =
     [[CHR 0x09], [CHR 0x0A], [CHR 0x0B], [CHR 0x0C], [CHR 0x0D], [CHR 0x20],
      [CHR 0xC2, CHR 0xA0], [CHR 0xE1, CHR 0x9A, CHR 0x80],
      [CHR 0xE2, CHR 0x80, CHR 0x80], [CHR 0xE2, CHR 0x80, CHR 0x81],
      [CHR 0xE2, CHR 0x80, CHR 0x82], [CHR 0xE2, CHR 0x80, CHR 0x83],
      [CHR 0xE2, CHR 0x80, CHR 0x84], [CHR 0xE2, CHR 0x80, CHR 0x85],
      [CHR 0xE2, CHR 0x80, CHR 0x86], [CHR 0xE2, CHR 0x80, CHR 0x87],
      [CHR 0xE2, CHR 0x80, CHR 0x88], [CHR 0xE2, CHR 0x80, CHR 0x89],
      [CHR 0xE2, CHR 0x80, CHR 0x8A], [CHR 0xE2, CHR 0x80, CHR 0xA8],
      [CHR 0xE2, CHR 0x80, CHR 0xA9], [CHR 0xE2, CHR 0x80, CHR 0xAF],
      [CHR 0xE2, CHR 0x81, CHR 0x9F], [CHR 0xE3, CHR 0x80, CHR 0x80],
      [CHR 0xEF, CHR 0xBB, CHR 0xBF]]"

lemma whiteSpace_nonempty: "w \<in> set whiteSpace \<Longrightarrow> w \<noteq> []"
  by (auto simp: whiteSpace_def)

function trimStart :: "string \<Rightarrow> string" where
  "trimStart s =
     (case find (\<lambda>w. prefix w s) whiteSpace of
        None \<Rightarrow> s
      | Some w \<Rightarrow> trimStart (drop (length w) s))"
  by pat_completeness auto
termination
proof (relation "measure length")
  show "wf (measure length)" by simp
next
  fix s w
  assume "find (\<lambda>w. prefix w s) whiteSpace = Some w"
  then have "w \<in> set whiteSpace" and "prefix w s"
    by (auto simp: find_Some_iff)
  then have "w \<noteq> []" and "length w \<le> length s"
    by (auto simp: whiteSpace_nonempty prefix_length_le)
  then show "(drop (length w) s, s) \<in> measure length"
    by (cases w) auto
qed

function trimEnd :: "string \<Rightarrow> string" where
  "trimEnd s =
     (case find (\<lambda>w. suffix w s) whiteSpace of
        None \<Rightarrow> s
      | Some w \<Rightarrow> trimEnd (take (length s - length w) s))"
  by pat_completeness auto
termination
proof (relation "measure length")
  show "wf (measure length)" by simp
next
  fix s w
  assume "find (\<lambda>w. suffix w s) whiteSpace = Some w"
  then have "w \<in> set whiteSpace" and "suffix w s"
    by (auto simp: find_Some_iff)
  then have "w \<noteq> []" and "length w \<le> length s"
    by (auto simp: whiteSpace_nonempty suffix_length_le)
  then show "(take (length s - length w) s, s) \<in> measure length"
    by (cases w) auto
qed

definition trim :: "string \<Rightarrow> string" where
  "trim s = trimEnd (trimStart s)"

section \<open>Header lists\<close>

text \<open>
  A \<open>Headers\<close> object is its header list: name and value pairs in order. Names are
  compared without regard to (ASCII) case. \<open>set\<close>, \<open>has\<close>, \<open>get\<close> and \<open>delete\<close>
  follow the Fetch standard. The runtime's validation of names and values is outside the
  model: a value is stored as it is given.
\<close>

type_synonym headers = "(string \<times> string) list"

definition sameName :: "string \<Rightarrow> string \<Rightarrow> bool" where
  "sameName a b = (toLowerCase a = toLowerCase b)"

definition has_header :: "headers \<Rightarrow> string \<Rightarrow> bool" where
  "has_header h name = list_ex (\<lambda>(k, v). sameName k name) h"

definition delete_header :: "headers \<Rightarrow> string \<Rightarrow> headers" where
  "delete_header h name = filter (\<lambda>(k, v). \<not> sameName k name) h"

text \<open>
  \<open>set\<close>: the first header of that name takes the value and the others of that name are
  removed; without one, the header is appended.
\<close>

fun set_header :: "headers \<Rightarrow> string \<Rightarrow> string \<Rightarrow> headers" where
  "set_header [] name value = [(name, value)]"
| "set_header ((k, v) # h) name value =
     (if sameName k name then (k, value) # delete_header h name
      else (k, v) # set_header h name value)"

fun joinValues :: "string list \<Rightarrow> string" where
  "joinValues [] = []"
| "joinValues [v] = v"
| "joinValues (v # vs) = v @ '', '' @ joinValues vs"

text \<open>\<open>get\<close>: the values of that name joined by a comma and a space, or null.\<close>

definition get_header :: "headers \<Rightarrow> string \<Rightarrow> string option" where
  "get_header h name =
     (case map snd (filter (\<lambda>(k, v). sameName k name) h) of
        [] \<Rightarrow> None
      | vs \<Rightarrow> Some (joinValues vs))"

section \<open>Requests, responses and the runtime\<close>

record request =
  req_method :: string
  req_url :: string
  req_headers :: headers
  req_body :: "string option"

record response =
  res_status :: nat
  res_statusText :: string
  res_headers :: headers
  res_body :: "string option"
  res_url :: string

text \<open>
  \<open>context\<close>: the inbound request and \<open>params?.target\<close> (\<open>None\<close> when undefined).
  \<open>req_headers\<close> of the inbound request is the sequence of entries that iterating
  \<open>request.headers\<close> yields.
\<close>

record "context" =
  request :: request
  target :: "string option"

text \<open>An element as the streaming parser hands it to a handler: names are lower case.\<close>

record element =
  tagName :: string
  attributes :: "(string \<times> string) list"

text \<open>
  The document as the streaming parser sees it: start tags, and everything else (text,
  end tags, comments) as raw chunks that no handler of this program touches.
\<close>

datatype token = StartTag element | Raw string

text \<open>
  What the hosting runtime provides, as parameters of the model:
  \<^item> \<open>URL_origin u\<close> is \<open>new URL(u).origin\<close> and \<open>URL_href v b\<close> is
    \<open>new URL(v, b).href\<close>, \<open>Inl\<close> when the constructor throws;
  \<^item> \<open>Request_url u m b\<close> is the \<open>url\<close> of \<open>new Request(u, {method: m, body: b, ...})\<close>,
    \<open>Inl\<close> when the constructor throws;
  \<^item> \<open>fetch\<close> answers a request or throws; \<open>res_text r\<close> is \<open>await r.text()\<close>;
  \<^item> \<open>tokenize\<close> and \<open>serialize\<close> are the parser and the serialiser of \<open>HTMLRewriter\<close>.
\<close>

record runtime =
  URL_origin :: "string \<Rightarrow> error + string"
  URL_href :: "string \<Rightarrow> string \<Rightarrow> error + string"
  Request_url :: "string \<Rightarrow> string \<Rightarrow> string option \<Rightarrow> error + string"
  fetch :: "request \<Rightarrow> error + response"
  res_text :: "response \<Rightarrow> error + string"
  tokenize :: "string \<Rightarrow> token list"
  serialize :: "token list \<Rightarrow> string"

section \<open>The CORS headers\<close>

definition applyCors :: "headers \<Rightarrow> string \<Rightarrow> headers" where
  "applyCors headers appVersion =
     (let h1 = set_header headers ''Access-Control-Allow-Origin'' ''*'';
          h2 = set_header h1 ''Access-Control-Allow-Methods'' ''GET, POST, PUT, DELETE, OPTIONS'';
          h3 = set_header h2 ''Access-Control-Allow-Headers'' ''*''
      in set_header h3 ''X-App-Version'' appVersion)"

definition corsHeaders :: "string \<Rightarrow> headers" where
  "corsHeaders appVersion = applyCors [] appVersion"

section \<open>The HTML rewriter\<close>

subsection \<open>\<open>rewriteStyleUrls\<close>\<close>

text \<open>
  The regular expression \<open>/url\([^)]*\)/\<close> tried at the start of \<open>s\<close>: the match (from
  \<open>url(\<close> to the first closing parenthesis) and the text after it.
\<close>

definition urlToken :: "string \<Rightarrow> (string \<times> string) option" where
  "urlToken s =
     (if prefix ''url('' s then
        (case dropWhile (\<lambda>c. c \<noteq> CHR '')'') (drop 4 s) of
           [] \<Rightarrow> None
         | _ # rest \<Rightarrow> Some (''url('' @ takeWhile (\<lambda>c. c \<noteq> CHR '')'') (drop 4 s) @ '')'', rest))
      else None)"

lemma urlToken_shorter: "urlToken s = Some (m, rest) \<Longrightarrow> length rest < length s"
proof -
  assume a: "urlToken s = Some (m, rest)"
  then obtain c where "dropWhile (\<lambda>c. c \<noteq> CHR '')'') (drop 4 s) = c # rest"
    by (auto simp: urlToken_def split: if_splits list.splits)
  then have "length (c # rest) \<le> length (drop 4 s)"
    by (metis length_dropWhile_le)
  then show ?thesis by simp
qed

text \<open>
  \<open>style.replace(/url\([^)]*\)/g, f)\<close>: the matches from left to right, without overlap,
  each replaced by what the callback returns; the text between them is copied.
\<close>

function replaceUrlTokens :: "(string \<Rightarrow> string) \<Rightarrow> string \<Rightarrow> string" where
  "replaceUrlTokens f [] = []"
| "replaceUrlTokens f (c # s) =
     (case urlToken (c # s) of
        Some (m, rest) \<Rightarrow> f m @ replaceUrlTokens f rest
      | None \<Rightarrow> c # replaceUrlTokens f s)"
  by pat_completeness auto
termination
proof (relation "measure (\<lambda>(f, s). length s)")
  show "wf (measure (\<lambda>(f, s). length s))" by simp
qed (auto dest: urlToken_shorter)

definition isQuote :: "char \<Rightarrow> bool" where
  "isQuote c = (c = CHR 0x22 \<or> c = CHR 0x27)"

definition urlChar :: "char \<Rightarrow> bool" where
  "urlChar c = (\<not> isQuote c \<and> c \<noteq> CHR '')'')"

text \<open>The optional quote \<open>["']?\<close>: a quote that is there is consumed.\<close>

definition optQuote :: "string \<Rightarrow> string" where
  "optQuote s = (case s of [] \<Rightarrow> [] | c # r \<Rightarrow> if isQuote c then r else s)"

text \<open>
  The regular expression \<open>/url\(["']?([^"')]+)["']?\)/\<close> tried at the start of \<open>s\<close>: its
  capture group. The group cannot start with a quote nor stop before a character it
  accepts, so a quote that is there is consumed and the group is the longest run.
\<close>

definition urlMatchAt :: "string \<Rightarrow> string option" where
  "urlMatchAt s =
     (if prefix ''url('' s then
        (let r = optQuote (drop 4 s);
             g = takeWhile urlChar r;
             t = optQuote (dropWhile urlChar r)
         in if g \<noteq> [] \<and> prefix '')'' t then Some g else None)
      else None)"

text \<open>\<open>match.match(...)\<close> is not anchored: the leftmost position where the expression matches.\<close>

fun urlMatch :: "string \<Rightarrow> string option" where
  "urlMatch [] = None"
| "urlMatch (c # s) =
     (case urlMatchAt (c # s) of Some g \<Rightarrow> Some g | None \<Rightarrow> urlMatch s)"

text \<open>The callback of the replacement.\<close>

definition replaceToken :: "runtime \<Rightarrow> string \<Rightarrow> string \<Rightarrow> string \<Rightarrow> string" where
  "replaceToken rt proxyBase baseUrl m =
     (case urlMatch m of
        None \<Rightarrow> m
      | Some u \<Rightarrow>
          (case URL_href rt u baseUrl of
             Inl e \<Rightarrow> m
           | Inr href \<Rightarrow> ''url('' @ proxyBase @ encodeURIComponent href @ '')''))"

definition rewriteStyleUrls :: "runtime \<Rightarrow> string \<Rightarrow> string \<Rightarrow> string \<Rightarrow> string" where
  "rewriteStyleUrls rt style proxyBase baseUrl =
     replaceUrlTokens (replaceToken rt proxyBase baseUrl) style"

subsection \<open>The element handlers\<close>

definition getAttribute :: "element \<Rightarrow> string \<Rightarrow> string option" where
  "getAttribute el name = map_of (attributes el) name"

fun updateAttribute :: "(string \<times> string) list \<Rightarrow> string \<Rightarrow> string \<Rightarrow> (string \<times> string) list" where
  "updateAttribute [] name value = [(name, value)]"
| "updateAttribute ((k, v) # as) name value =
     (if k = name then (k, value) # as else (k, v) # updateAttribute as name value)"

definition setAttribute :: "element \<Rightarrow> string \<Rightarrow> string \<Rightarrow> element" where
  "setAttribute el name value = el\<lparr>attributes := updateAttribute (attributes el) name value\<rparr>"

text \<open>
  The selector \<open>a[href], link[href], script[src], img[src], source[src], embed[src],
  iframe[src], form[action]\<close>.
\<close>

definition linkSelector :: "element \<Rightarrow> bool" where
  "linkSelector el =
     ((tagName el \<in> set [''a'', ''link''] \<and> getAttribute el ''href'' \<noteq> None) \<or>
      (tagName el \<in> set [''script'', ''img'', ''source'', ''embed'', ''iframe''] \<and>
         getAttribute el ''src'' \<noteq> None) \<or>
      (tagName el = ''form'' \<and> getAttribute el ''action'' \<noteq> None))"

text \<open>The attribute the handler picks.\<close>

definition linkAttr :: "element \<Rightarrow> string option" where
  "linkAttr el =
     (if tagName el = ''form'' then Some ''action''
      else if getAttribute el ''href'' \<noteq> None then Some ''href''
      else if getAttribute el ''src'' \<noteq> None then Some ''src''
      else None)"

definition linkHandler :: "runtime \<Rightarrow> string \<Rightarrow> string \<Rightarrow> element \<Rightarrow> element" where
  "linkHandler rt proxyBase baseUrl el =
     (case linkAttr el of
        None \<Rightarrow> el
      | Some attr \<Rightarrow>
          (case getAttribute el attr of
             None \<Rightarrow> el
           | Some value \<Rightarrow>
               if value = [] then el
               else (case URL_href rt value baseUrl of
                       Inl e \<Rightarrow> el
                     | Inr href \<Rightarrow> setAttribute el attr (proxyBase @ encodeURIComponent href))))"

text \<open>The selector \<open>*[style]\<close> and its handler.\<close>

definition styleSelector :: "element \<Rightarrow> bool" where
  "styleSelector el = (getAttribute el ''style'' \<noteq> None)"

definition styleHandler :: "runtime \<Rightarrow> string \<Rightarrow> string \<Rightarrow> element \<Rightarrow> element" where
  "styleHandler rt proxyBase baseUrl el =
     (let style = (case getAttribute el ''style'' of None \<Rightarrow> [] | Some s \<Rightarrow> s)
      in setAttribute el ''style'' (rewriteStyleUrls rt style proxyBase baseUrl))"

text \<open>The selectors of the two handlers that remove the element.\<close>

definition cspMetaSelector :: "element \<Rightarrow> bool" where
  "cspMetaSelector el =
     (tagName el = ''meta'' \<and>
      (getAttribute el ''http-equiv'' = Some ''Content-Security-Policy'' \<or>
       getAttribute el ''http-equiv'' = Some ''content-security-policy''))"

definition baseSelector :: "element \<Rightarrow> bool" where
  "baseSelector el = (tagName el = ''base'' \<and> getAttribute el ''href'' \<noteq> None)"

text \<open>
  What the rewriter does with one start tag: the handlers whose selector matches the tag
  as parsed run in the order of their registration; \<open>None\<close> is a removed element
  (\<open>meta\<close> and \<open>base\<close> are void elements: removing one drops its tag and nothing else).
\<close>

definition rewriteElement :: "runtime \<Rightarrow> string \<Rightarrow> string \<Rightarrow> element \<Rightarrow> element option" where
  "rewriteElement rt proxyBase baseUrl el =
     (let e1 = (if linkSelector el then linkHandler rt proxyBase baseUrl el else el);
          e2 = (if styleSelector el then styleHandler rt proxyBase baseUrl e1 else e1)
      in if cspMetaSelector el \<or> baseSelector el then None else Some e2)"

fun rewriteTokens :: "runtime \<Rightarrow> string \<Rightarrow> string \<Rightarrow> token list \<Rightarrow> token list" where
  "rewriteTokens rt proxyBase baseUrl [] = []"
| "rewriteTokens rt proxyBase baseUrl (Raw s # ts) = Raw s # rewriteTokens rt proxyBase baseUrl ts"
| "rewriteTokens rt proxyBase baseUrl (StartTag el # ts) =
     (case rewriteElement rt proxyBase baseUrl el of
        None \<Rightarrow> rewriteTokens rt proxyBase baseUrl ts
      | Some el' \<Rightarrow> StartTag el' # rewriteTokens rt proxyBase baseUrl ts)"

text \<open>\<open>htmlRewriter(proxyBase, baseUrl).transform(response)\<close>: the body is rewritten, the rest kept.\<close>

definition htmlRewriter_transform :: "runtime \<Rightarrow> string \<Rightarrow> string \<Rightarrow> response \<Rightarrow> response" where
  "htmlRewriter_transform rt proxyBase baseUrl r =
     r\<lparr>res_body :=
         map_option (\<lambda>b. serialize rt (rewriteTokens rt proxyBase baseUrl (tokenize rt b)))
           (res_body r)\<rparr>"

section \<open>The request handler\<close>

text \<open>\<open>new Response(text, {status})\<close>: a text body brings its content type, nothing else is set.\<close>

definition textResponse :: "string \<Rightarrow> nat \<Rightarrow> response" where
  "textResponse b st =
     \<lparr>res_status = st, res_statusText = [],
      res_headers = [(''content-type'', ''text/plain;charset=UTF-8'')],
      res_body = Some b, res_url = []\<rparr>"

text \<open>
  Reading the deployed VERSION file: any failure, a response that is not ok or an empty
  text keeps the default.
\<close>

definition versionRequest :: "string \<Rightarrow> request" where
  "versionRequest origin =
     \<lparr>req_method = ''GET'', req_url = origin @ ''/VERSION'', req_headers = [], req_body = None\<rparr>"

definition ok :: "response \<Rightarrow> bool" where
  "ok r = (200 \<le> res_status r \<and> res_status r \<le> 299)"

definition readVersion :: "runtime \<Rightarrow> string \<Rightarrow> string \<Rightarrow> string" where
  "readVersion rt origin APP_VERSION =
     (case fetch rt (versionRequest origin) of
        Inl e \<Rightarrow> APP_VERSION
      | Inr vres \<Rightarrow>
          if ok vres then
            (case res_text rt vres of
               Inl e \<Rightarrow> APP_VERSION
             | Inr t \<Rightarrow> if trim t = [] then APP_VERSION else trim t)
          else APP_VERSION)"

text \<open>Building the outgoing headers: the loop over the inbound entries, then the defaults.\<close>

fun copyHeaders :: "headers \<Rightarrow> headers \<Rightarrow> headers" where
  "copyHeaders outgoingHeaders [] = outgoingHeaders"
| "copyHeaders outgoingHeaders ((k, v) # rest) =
     (let key = toLowerCase k
      in if key \<in> set [''host'', ''cookie'', ''content-length''] then copyHeaders outgoingHeaders rest
         else copyHeaders (set_header outgoingHeaders k v) rest)"

definition outgoingHeaders :: "headers \<Rightarrow> string \<Rightarrow> headers" where
  "outgoingHeaders inbound targetUrl =
     (let h0 = copyHeaders [] inbound;
          h1 = (if \<not> has_header h0 ''user-agent''
                then set_header h0 ''User-Agent''
                       ''Mozilla/5.0 (Windows NT 10.0; Win64; x64) AppleWebKit/537.36''
                else h0);
          h2 = (if \<not> has_header h1 ''accept'' then set_header h1 ''Accept'' ''*/*'' else h1)
      in set_header h2 ''Referer'' targetUrl)"

text \<open>The two ways an upstream response is relayed.\<close>

definition isHtml :: "string \<Rightarrow> bool" where
  "isHtml contentType = (prefix ''text/html'' contentType \<or> str_includes contentType ''xml'')"

definition htmlResponse ::
  "runtime \<Rightarrow> string \<Rightarrow> string \<Rightarrow> request \<Rightarrow> response \<Rightarrow> string \<Rightarrow> response" where
  "htmlResponse rt origin targetUrl proxyReq fetched APP_VERSION =
     (let proxyBase = origin @ ''/p/'';
          transformed = htmlRewriter_transform rt proxyBase targetUrl fetched;
          h1 = set_header (res_headers transformed) ''X-Proxy-Target'' targetUrl;
          h2 = set_header h1 ''X-Proxy-Request-URL'' (req_url proxyReq);
          h3 = set_header h2 ''X-Fetched-URL'' (res_url fetched);
          h4 = set_header h3 ''X-App-Version'' APP_VERSION;
          h5 = delete_header h4 ''x-frame-options'';
          h6 = delete_header h5 ''content-security-policy'';
          h7 = delete_header h6 ''content-security-policy-report-only''
      in \<lparr>res_status = res_status transformed, res_statusText = res_statusText transformed,
          res_headers = applyCors h7 APP_VERSION, res_body = res_body transformed,
          res_url = []\<rparr>)"

definition passthroughResponse ::
  "string \<Rightarrow> request \<Rightarrow> response \<Rightarrow> string \<Rightarrow> response" where
  "passthroughResponse targetUrl proxyReq fetched APP_VERSION =
     (let h1 = set_header (res_headers fetched) ''X-Proxy-Target'' targetUrl;
          h2 = set_header h1 ''X-Proxy-Request-URL'' (req_url proxyReq);
          h3 = set_header h2 ''X-Fetched-URL'' (res_url fetched);
          h4 = set_header h3 ''X-App-Version'' APP_VERSION;
          h5 = delete_header h4 ''x-frame-options''
      in \<lparr>res_status = res_status fetched, res_statusText = res_statusText fetched,
          res_headers = applyCors h5 APP_VERSION, res_body = res_body fetched,
          res_url = []\<rparr>)"

text \<open>
  The body of the \<open>try\<close> block. The result is what the block returns or the exception it
  throws, together with the requests given to \<open>fetch\<close>, in order.
\<close>

definition tryBlock ::
  "runtime \<Rightarrow> request \<Rightarrow> string \<Rightarrow> string \<Rightarrow> (error + response) \<times> request list" where
  "tryBlock rt req origin targetUrl =
     (let APP_VERSION = readVersion rt origin ''0.0.0'';
          outgoing = outgoingHeaders (req_headers req) targetUrl
      in if req_method req = ''OPTIONS'' then
           (Inr \<lparr>res_status = 204, res_statusText = [], res_headers = corsHeaders APP_VERSION,
                 res_body = None, res_url = []\<rparr>,
            [versionRequest origin])
         else
           (case Request_url rt targetUrl (req_method req) (req_body req) of
              Inl e \<Rightarrow> (Inl e, [versionRequest origin])
            | Inr u \<Rightarrow>
                (let proxyReq = \<lparr>req_method = req_method req, req_url = u,
                                  req_headers = outgoing, req_body = req_body req\<rparr>
                 in case fetch rt proxyReq of
                      Inl e \<Rightarrow> (Inl e, [versionRequest origin, proxyReq])
                    | Inr fetched \<Rightarrow>
                        (let contentType =
                               toLowerCase (case get_header (res_headers fetched) ''Content-Type'' of
                                              None \<Rightarrow> [] | Some v \<Rightarrow> v)
                         in (Inr (if isHtml contentType
                                  then htmlResponse rt origin targetUrl proxyReq fetched APP_VERSION
                                  else passthroughResponse targetUrl proxyReq fetched APP_VERSION),
                             [versionRequest origin, proxyReq])))))"

text \<open>
  \<open>onRequest\<close>. \<open>Inl\<close> is an exception that leaves the handler: the decoding of the
  target and the reading of the origin stand before the \<open>try\<close>. An exception inside the
  \<open>try\<close> becomes the 502 response.
\<close>

definition onRequest :: "runtime \<Rightarrow> context \<Rightarrow> (error + response) \<times> request list" where
  "onRequest rt ctx =
     (case target ctx of
        None \<Rightarrow> (Inr (textResponse ''Missing target URL'' 400), [])
      | Some targetParam \<Rightarrow>
          if targetParam = [] then (Inr (textResponse ''Missing target URL'' 400), [])
          else
            (case decodeURIComponent targetParam of
               Inl e \<Rightarrow> (Inl e, [])
             | Inr targetUrl \<Rightarrow>
                 (case URL_origin rt (req_url (request ctx)) of
                    Inl e \<Rightarrow> (Inl e, [])
                  | Inr origin \<Rightarrow>
                      if prefix origin targetUrl then
                        (Inr (textResponse ''Refusing to proxy this origin (loop protection).'' 400), [])
                      else
                        (case tryBlock rt (request ctx) origin targetUrl of
                           (Inl e, sent) \<Rightarrow>
                             (Inr (textResponse
                                     (''Proxy failed: '' @ message e @ [CHR 0x0A, CHR 0x0A] @
                                      ''Target: '' @ targetUrl) 502),
                              sent)
                         | (Inr r, sent) \<Rightarrow> (Inr r, sent)))))"

section \<open>Notions used to state the properties\<close>

text \<open>The values a header list holds for a name, in order, and the last of them.\<close>

definition header_values :: "headers \<Rightarrow> string \<Rightarrow> string list" where
  "header_values h name = map snd (filter (\<lambda>(k, v). sameName k name) h)"






subsection \<open>A small runtime on which the properties are instantiated\<close>

text \<open>
  A stand-in for the hosting runtime, for evaluating the handler on concrete requests:
  the proxy is served at \<open>https://proxy.example\<close>; a reference starting with a slash is
  resolved by appending it to the base; three upstream resources exist.
\<close>

definition sampleResolve :: "string \<Rightarrow> string \<Rightarrow> error + string" where
  "sampleResolve v b =
     (if prefix ''https://'' v then Inr v
      else if prefix ''/'' v then Inr (b @ v)
      else Inl (TypeError ''Invalid URL''))"

definition sampleFetch :: "request \<Rightarrow> error + response" where
  "sampleFetch q =
     (if req_url q = ''https://proxy.example/VERSION'' then
        Inr \<lparr>res_status = 200, res_statusText = ''OK'', res_headers = [],
             res_body = Some (''1.4.2'' @ [CHR 0x0A]), res_url = req_url q\<rparr>
      else if req_url q = ''https://example.com/logo.png'' then
        Inr \<lparr>res_status = 200, res_statusText = ''OK'',
             res_headers = [(''Content-Type'', ''image/png''), (''X-Frame-Options'', ''DENY'')],
             res_body = Some ''PNG-bytes'', res_url = req_url q\<rparr>
      else if req_url q = ''https://example.com'' then
        Inr \<lparr>res_status = 200, res_statusText = ''OK'',
             res_headers = [(''Content-Type'', ''Text/HTML; charset=utf-8'')],
             res_body = Some ''<a href=/page>Go</a>'', res_url = req_url q\<rparr>
      else Inl (TypeError ''fetch failed''))"

definition sampleTokenize :: "string \<Rightarrow> token list" where
  "sampleTokenize b =
     (if b = ''<a href=/page>Go</a>''
      then [StartTag \<lparr>tagName = ''a'', attributes = [(''href'', ''/page'')]\<rparr>, Raw ''Go</a>'']
      else [Raw b])"

fun sampleSerialize :: "token list \<Rightarrow> string" where
  "sampleSerialize [] = []"
| "sampleSerialize (Raw s # ts) = s @ sampleSerialize ts"
| "sampleSerialize (StartTag el # ts) =
     ''<'' @ tagName el @ concat (map (\<lambda>(k, v). '' '' @ k @ ''='' @ v) (attributes el)) @ ''>'' @
     sampleSerialize ts"

definition sampleRuntime :: runtime where
  "sampleRuntime =
     \<lparr>URL_origin = (\<lambda>u. Inr ''https://proxy.example''),
      URL_href = sampleResolve,
      Request_url = (\<lambda>u m b. if prefix ''https://'' u then Inr u else Inl (TypeError ''Invalid URL'')),
      fetch = sampleFetch,
      res_text = (\<lambda>r. Inr (case res_body r of None \<Rightarrow> [] | Some b \<Rightarrow> b)),
      tokenize = sampleTokenize,
      serialize = sampleSerialize\<rparr>"

definition sampleRequest :: "string \<Rightarrow> headers \<Rightarrow> request" where
  "sampleRequest m h =
     \<lparr>req_method = m, req_url = ''https://proxy.example/p/x'', req_headers = h, req_body = None\<rparr>"

section \<open>Percent-coding: decoding undoes encoding\<close>

lemma hexVal_hexDigit: "n < 16 \<Longrightarrow> hexVal (hexDigit n) = Some n"
  by (auto simp: hexVal_def hexDigit_def byte_def Let_def)

lemma ParseHexOctet_pct:
  "ParseHexOctet (hexDigit (byte c div 16)) (hexDigit (byte c mod 16)) = Some c"
proof -
  have "byte c < 256" by (simp add: byte_def)
  then have "byte c div 16 < 16" by simp
  then show ?thesis
    by (simp add: ParseHexOctet_def hexVal_hexDigit) (simp add: byte_def)
qed

lemma unescaped_not_percent: "uriUnescaped c \<Longrightarrow> c \<noteq> CHR ''%''"
  by (auto simp: uriUnescaped_def byte_def Let_def)

lemma unescaped_ascii: "uriUnescaped c \<Longrightarrow> leadingOnes c = 0"
  by (auto simp: uriUnescaped_def leadingOnes_def byte_def Let_def)

lemma encode_append:
  "encodeURIComponent (xs @ ys) = encodeURIComponent xs @ encodeURIComponent ys"
  by (induction xs) auto

lemma cont_escaped: "cont c \<Longrightarrow> \<not> uriUnescaped c"
  by (auto simp: cont_def uriUnescaped_def byte_def Let_def)

lemma continuation_encode:
  "\<forall>x \<in> set xs. cont x \<Longrightarrow>
   continuation (length xs) (encodeURIComponent xs @ t) = Some (xs, t)"
  by (induction xs) (auto simp: cont_escaped pctEncode_def ParseHexOctet_pct)

lemma validUtf8_shape:
  "validUtf8 (c # xs) \<Longrightarrow> leadingOnes c = Suc (length xs) \<and> (\<forall>x \<in> set xs. cont x)"
  by (cases "c # xs" rule: validUtf8.cases) (auto simp: leadingOnes_def cont_def Let_def)

lemma decode_step_ascii:
  "leadingOnes c = 0 \<Longrightarrow>
   decodeURIComponent (encodeURIComponent (c # s)) =
     (case decodeURIComponent (encodeURIComponent s) of Inl e \<Rightarrow> Inl e | Inr r \<Rightarrow> Inr (c # r))"
  by (auto simp: pctEncode_def ParseHexOctet_pct unescaped_not_percent)

lemma decode_step_multi:
  assumes "validUtf8 (c # xs)"
  shows "decodeURIComponent (encodeURIComponent (c # xs) @ t) =
     (case decodeURIComponent t of Inl e \<Rightarrow> Inl e | Inr r \<Rightarrow> Inr (c # xs @ r))"
proof -
  from assms have n: "leadingOnes c = Suc (length xs)" and cs: "\<forall>x \<in> set xs. cont x"
    using validUtf8_shape by blast+
  from assms have len: "1 \<le> length xs" "length xs \<le> 3"
    by (cases "c # xs" rule: validUtf8.cases; simp)+
  have esc: "\<not> uriUnescaped c"
    using n unescaped_ascii by fastforce
  have k: "continuation (length xs) (encodeURIComponent xs @ t) = Some (xs, t)"
    using cs by (rule continuation_encode)
  show ?thesis
    using assms n len esc k
    by (auto simp: pctEncode_def ParseHexOctet_pct)
qed

lemma decode_encode: "wellFormed s \<Longrightarrow> decodeURIComponent (encodeURIComponent s) = Inr s"
proof (induction s rule: wellFormed.induct)
  case 1
  show ?case by simp
next
  case (2 c s)
  show ?case
  proof (cases "leadingOnes c = 0")
    case True
    with 2 have "decodeURIComponent (encodeURIComponent s) = Inr s" by simp
    with True show ?thesis
      by (simp only: decode_step_ascii sum.case)
  next
    case False
    let ?k = "leadingOnes c - 1"
    from False 2 have v: "validUtf8 (c # take ?k s)" and
      ih: "decodeURIComponent (encodeURIComponent (drop ?k s)) = Inr (drop ?k s)"
      by simp_all
    have "encodeURIComponent (c # s) =
        encodeURIComponent (c # take ?k s) @ encodeURIComponent (drop ?k s)"
      using encode_append [of "c # take ?k s" "drop ?k s"] by simp
    then show ?thesis
      using decode_step_multi [OF v, of "encodeURIComponent (drop ?k s)"] ih
      by (simp only: sum.case append_take_drop_id append_Cons)
  qed
qed

lemma getAttribute_setAttribute:
  "getAttribute (setAttribute el a v) a = Some v"
proof -
  have "map_of (updateAttribute as a v) a = Some v" for as
    by (induction as) auto
  then show ?thesis by (simp add: getAttribute_def setAttribute_def)
qed

text \<open>
  Claim C7. When the link handler rewrites an attribute whose value resolves against the
  base URL to \<open>href\<close>, the new value is the proxy base followed by the encoded \<open>href\<close>,
  and stripping the proxy base and percent-decoding the rest gives \<open>href\<close> back.
  (\<open>wellFormed href\<close> says that \<open>href\<close> is a JavaScript string: its bytes are UTF-8.)
\<close>

theorem rewritten_url_roundtrip:
  assumes "linkAttr el = Some a" and "getAttribute el a = Some value" and "value \<noteq> []"
    and "URL_href rt value baseUrl = Inr href" and "wellFormed href"
  shows "getAttribute (linkHandler rt proxyBase baseUrl el) a =
           Some (proxyBase @ encodeURIComponent href) \<and>
         decodeURIComponent (drop (length proxyBase) (proxyBase @ encodeURIComponent href)) =
           Inr href"
  using assms by (simp add: linkHandler_def getAttribute_setAttribute decode_encode)

theorem rewritten_url_roundtrip_witness:
  "getAttribute
     (linkHandler sampleRuntime ''https://proxy.example/p/'' ''https://example.com''
        \<lparr>tagName = ''a'', attributes = [(''href'', ''/page'')]\<rparr>) ''href'' =
     Some (''https://proxy.example/p/'' @ encodeURIComponent ''https://example.com/page'') \<and>
   decodeURIComponent
     (drop (length ''https://proxy.example/p/'')
        (''https://proxy.example/p/'' @ encodeURIComponent ''https://example.com/page'')) =
     Inr ''https://example.com/page''"
proof -
  let ?el = "\<lparr>tagName = ''a'', attributes = [(''href'', ''/page'')]\<rparr>"
  have 1: "linkAttr ?el = Some ''href''" by code_simp
  have 2: "getAttribute ?el ''href'' = Some ''/page''" by code_simp
  have 3: "''/page'' \<noteq> []" by simp
  have 4: "URL_href sampleRuntime ''/page'' ''https://example.com'' = Inr ''https://example.com/page''"
    by code_simp
  have 5: "wellFormed ''https://example.com/page''" by code_simp
  show ?thesis
    by (rule rewritten_url_roundtrip [OF 1 2 3 4 5])
qed

section \<open>The outgoing headers\<close>

lemma get_header_values:
  "get_header h name = (case header_values h name of [] \<Rightarrow> None | vs \<Rightarrow> Some (joinValues vs))"
  by (simp add: get_header_def header_values_def)



















lemma values_sameName: "sameName m m' \<Longrightarrow> header_values h m = header_values h m'"
  by (simp add: header_values_def sameName_def)







lemma get_sameName: "sameName m m' \<Longrightarrow> get_header h m = get_header h m'"
  by (simp add: get_header_values values_sameName)

lemma sameName_sym: "sameName a b = sameName b a"
  by (auto simp: sameName_def)




text \<open>
  The requests given to \<open>fetch\<close> are the request for the version file, which has no
  headers, and the upstream request, whose headers are these outgoing headers.
\<close>

lemma tryBlock_sent:
  assumes "tryBlock rt req origin targetUrl = (res, sent)" and "q \<in> set sent"
  shows "q = versionRequest origin \<or>
         (req_headers q = outgoingHeaders (req_headers req) targetUrl \<and>
          req_method q = req_method req \<and> req_body q = req_body req)"
  using assms
  by (auto simp: tryBlock_def Let_def split: if_splits sum.splits)

lemma upstream_request_headers:
  assumes "onRequest rt ctx = (res, sent)" and "q \<in> set sent"
  shows "(\<exists>origin. q = versionRequest origin) \<or>
         (\<exists>p t. target ctx = Some p \<and> decodeURIComponent p = Inr t \<and>
            req_headers q = outgoingHeaders (req_headers (request ctx)) t)"
proof -
  from assms obtain p t origin res' where
    "target ctx = Some p" and "decodeURIComponent p = Inr t" and
    "tryBlock rt (request ctx) origin t = (res', sent)"
    by (auto simp: onRequest_def split: option.splits if_splits sum.splits prod.splits)
  with assms(2) tryBlock_sent show ?thesis
    by blast
qed




section \<open>The request handler: validation and errors\<close>

text \<open>
  Claim C2. A present target whose decoded text starts with the proxy's own origin is
  answered with 400 and the loop-protection message, and nothing is given to \<open>fetch\<close>.
\<close>

theorem loop_protection:
  assumes "target ctx = Some targetParam" and "targetParam \<noteq> []"
    and "decodeURIComponent targetParam = Inr targetUrl"
    and "URL_origin rt (req_url (request ctx)) = Inr origin"
    and "prefix origin targetUrl"
  shows "onRequest rt ctx =
    (Inr (textResponse ''Refusing to proxy this origin (loop protection).'' 400), [])"
  using assms by (simp add: onRequest_def)

theorem loop_protection_witness:
  "onRequest sampleRuntime
     \<lparr>request = sampleRequest ''GET'' [], target = Some ''https%3A%2F%2Fproxy.example%2Fp%2Fx''\<rparr> =
   (Inr (textResponse ''Refusing to proxy this origin (loop protection).'' 400), [])"
proof -
  let ?ctx = "\<lparr>request = sampleRequest ''GET'' [], target = Some ''https%3A%2F%2Fproxy.example%2Fp%2Fx''\<rparr>"
  have 1: "target ?ctx = Some ''https%3A%2F%2Fproxy.example%2Fp%2Fx''" by simp
  have 2: "''https%3A%2F%2Fproxy.example%2Fp%2Fx'' \<noteq> []" by simp
  have 3: "decodeURIComponent ''https%3A%2F%2Fproxy.example%2Fp%2Fx'' = Inr ''https://proxy.example/p/x''"
    by code_simp
  have 4: "URL_origin sampleRuntime (req_url (request ?ctx)) = Inr ''https://proxy.example''"
    by (simp add: sampleRuntime_def)
  have 5: "prefix ''https://proxy.example'' ''https://proxy.example/p/x''" by code_simp
  show ?thesis by (rule loop_protection [OF 1 2 3 4 5])
qed




section \<open>The CORS headers on responses\<close>










section \<open>OPTIONS requests\<close>

text \<open>
  Claim C8 at a target whose percent-decoding fails: the target is present and no loop
  protection is triggered, yet the OPTIONS request gets no 204; the exception of the
  decoding, which stands before the \<open>try\<close>, leaves the handler.
\<close>

theorem options_undecodable_target:
  "onRequest sampleRuntime \<lparr>request = sampleRequest ''OPTIONS'' [], target = Some ''%''\<rparr> =
     (Inl (URIError ''URI malformed''), [])"
  by code_simp

text \<open>
  For a target that decodes, the order of the checks is as the claim says: a missing
  target is answered with 400 whatever the method, as is a target at the proxy's own
  origin, and any other OPTIONS request with 204, the CORS headers and no body, only the
  version file having been fetched.
\<close>

lemma options_preflight:
  assumes "target ctx = Some targetParam" and "targetParam \<noteq> []"
    and "decodeURIComponent targetParam = Inr targetUrl"
    and "URL_origin rt (req_url (request ctx)) = Inr origin"
    and "\<not> prefix origin targetUrl"
    and "req_method (request ctx) = ''OPTIONS''"
  shows "onRequest rt ctx =
    (Inr \<lparr>res_status = 204, res_statusText = [],
          res_headers = corsHeaders (readVersion rt origin ''0.0.0''),
          res_body = None, res_url = []\<rparr>,
     [versionRequest origin])"
  using assms by (simp add: onRequest_def tryBlock_def)

lemma missing_target:
  assumes "target ctx = None \<or> target ctx = Some []"
  shows "onRequest rt ctx = (Inr (textResponse ''Missing target URL'' 400), [])"
  using assms by (auto simp: onRequest_def)

section \<open>Content-type dispatch\<close>








section \<open>The element handlers\<close>

lemma link_attribute_rewritten:
  assumes "linkAttr el = Some a" and "getAttribute el a = Some value" and "value \<noteq> []"
  shows "getAttribute (linkHandler rt proxyBase baseUrl el) a =
     Some (case URL_href rt value baseUrl of
             Inl e \<Rightarrow> value
           | Inr href \<Rightarrow> proxyBase @ encodeURIComponent href)"
  using assms by (simp add: linkHandler_def getAttribute_setAttribute split: sum.splits)

lemma linkAttr_selected:
  assumes "linkSelector el"
  shows "linkAttr el =
     Some (if tagName el = ''form'' then ''action''
           else if tagName el \<in> set [''a'', ''link''] then ''href''
           else if getAttribute el ''href'' \<noteq> None then ''href'' else ''src'')"
  using assms by (auto simp: linkSelector_def linkAttr_def)

text \<open>
  Claim C1 at an \<open>img\<close> element that carries an \<open>href\<close> attribute besides its \<open>src\<close>: the
  handler picks \<open>href\<close>, and the non-empty \<open>src\<close> is left as it was. (For \<open>a\<close>, \<open>link\<close> and
  \<open>form\<close>, and for the other elements when they carry no \<open>href\<close>, the attribute of the
  claim is the one rewritten: \<open>linkAttr_selected\<close>, \<open>link_attribute_rewritten\<close>.)
\<close>

theorem src_with_href_not_rewritten:
  "rewriteElement sampleRuntime ''https://proxy.example/p/'' ''https://example.com''
     \<lparr>tagName = ''img'', attributes = [(''src'', ''/logo.png''), (''href'', ''/x'')]\<rparr> =
   Some \<lparr>tagName = ''img'',
         attributes = [(''src'', ''/logo.png''),
                       (''href'', ''https://proxy.example/p/https%3A%2F%2Fexample.com%2Fx'')]\<rparr>"
  by code_simp

section \<open>Inline styles\<close>

lemma urlToken_at:
  assumes "CHR '')'' \<notin> set x"
  shows "urlToken (''url('' @ x @ '')'' @ post) = Some (''url('' @ x @ '')'', post)"
proof -
  have d: "dropWhile (\<lambda>c. c \<noteq> CHR '')'') (x @ CHR '')'' # post) = CHR '')'' # post"
    using assms by (induction x) auto
  have t: "takeWhile (\<lambda>c. c \<noteq> CHR '')'') (x @ CHR '')'' # post) = x"
    using assms by (induction x) auto
  show ?thesis
    using d t by (simp add: urlToken_def)
qed

lemma replace_token:
  assumes "CHR '')'' \<notin> set x"
  shows "replaceUrlTokens f (''url('' @ x @ '')'' @ post) =
         f (''url('' @ x @ '')'') @ replaceUrlTokens f post"
  using urlToken_at [OF assms, of post] by simp

lemma replace_text:
  assumes "\<forall>i < length pre. \<not> prefix ''url('' (drop i (pre @ s))"
  shows "replaceUrlTokens f (pre @ s) = pre @ replaceUrlTokens f s"
  using assms
proof (induction pre)
  case Nil
  show ?case by simp
next
  case (Cons c pre)
  from Cons.prems have "\<not> prefix ''url('' (drop 0 ((c # pre) @ s))"
    by blast
  then have np: "\<not> prefix ''url('' (c # pre @ s)"
    by simp
  have n: "urlToken (c # pre @ s) = None"
    by (simp only: urlToken_def np if_False)
  have "\<forall>i < length pre. \<not> prefix ''url('' (drop i (pre @ s))"
  proof (intro allI impI)
    fix i assume "i < length pre"
    then have "Suc i < length (c # pre)" by simp
    with Cons.prems have "\<not> prefix ''url('' (drop (Suc i) ((c # pre) @ s))" by blast
    then show "\<not> prefix ''url('' (drop i (pre @ s))" by simp
  qed
  with Cons.IH have "replaceUrlTokens f (pre @ s) = pre @ replaceUrlTokens f s" by simp
  with n show ?case by simp
qed

lemma urlMatchAt_shape:
  assumes "g \<noteq> []" and "\<forall>c \<in> set g. urlChar c"
    and "q1 = [] \<or> (\<exists>c. q1 = [c] \<and> isQuote c)" and "q2 = [] \<or> (\<exists>c. q2 = [c] \<and> isQuote c)"
  shows "urlMatchAt (''url('' @ q1 @ g @ q2 @ '')'') = Some g"
proof -
  obtain g0 gs where g: "g = g0 # gs" using assms(1) by (cases g) auto
  have g0: "\<not> isQuote g0" using assms(2) g by (simp add: urlChar_def)
  have r: "optQuote (q1 @ g @ q2 @ '')'') = g @ q2 @ '')''"
    using assms(3) g g0 by (auto simp: optQuote_def)
  have nq: "\<not> urlChar c" if "isQuote c" for c
    using that by (simp add: urlChar_def)
  have np: "\<not> urlChar (CHR '')'')" by (simp add: urlChar_def)
  have tw: "takeWhile urlChar (g @ q2 @ '')'') = g"
    using assms(2,4) nq np by (auto simp: takeWhile_append2 takeWhile_append1)
  have dw: "dropWhile urlChar (g @ q2 @ '')'') = q2 @ '')''"
    using assms(2,4) nq np by (auto simp: dropWhile_append2 dropWhile_append1)
  have o2: "optQuote (q2 @ '')'') = '')''"
    using assms(4) by (auto simp: optQuote_def isQuote_def)
  show ?thesis
    using assms(1) r tw dw o2 by (simp add: urlMatchAt_def Let_def)
qed

lemma replaceToken_shape:
  assumes "g \<noteq> []" and "\<forall>c \<in> set g. urlChar c"
    and "q1 = [] \<or> (\<exists>c. q1 = [c] \<and> isQuote c)" and "q2 = [] \<or> (\<exists>c. q2 = [c] \<and> isQuote c)"
  shows "replaceToken rt proxyBase baseUrl (''url('' @ q1 @ g @ q2 @ '')'') =
     (case URL_href rt g baseUrl of
        Inl e \<Rightarrow> ''url('' @ q1 @ g @ q2 @ '')''
      | Inr href \<Rightarrow> ''url('' @ proxyBase @ encodeURIComponent href @ '')'')"
  using urlMatchAt_shape [OF assms] by (simp add: replaceToken_def split: sum.splits)

lemma urlMatch_none: "\<not> str_includes m ''url('' \<Longrightarrow> urlMatch m = None"
  by (induction m) (auto simp: urlMatchAt_def)

text \<open>
  Claim C9 at a token that is not of the form \<open>url(\<close>, optional quote, URL, optional
  quote, \<open>)\<close> but holds another \<open>url(\<close> further in: the search inside the token is not
  anchored, so the token is not left verbatim; the whole of it is replaced by the
  rewritten inner occurrence. (A token of that form is replaced as the claim says, and
  the text around the tokens is copied: \<open>replaceToken_shape\<close>, \<open>replace_token\<close>,
  \<open>replace_text\<close>.)
\<close>

theorem nested_url_token_rewritten:
  "rewriteStyleUrls sampleRuntime
     (''background:url('' @ [CHR 0x22] @ ''a'' @ [CHR 0x22] @ ''b url(/c)'')
     ''https://proxy.example/p/'' ''https://example.com'' =
   ''background:url(https://proxy.example/p/https%3A%2F%2Fexample.com%2Fc)''"
  by code_simp

end
